theory Spec2Isabelle
  imports Complex_Main
begin
section \<open>CheXpert\_Full: a shallow embedding of \<open>src/datasets/chest_xray/chexpert_full.py\<close>\<close>

text \<open>
  The dataset class reads a CSV manifest with numpy, opens images with PIL and transforms
  them with torchvision.  Every exception the Python can raise is a value of \<open>error\<close>;
  a function that can raise returns \<open>error + 'a\<close> with \<open>Inl\<close> for the exception.
  \<open>RuntimeError\<close> and \<open>FileNotFoundError\<close>, which the class raises itself, carry their
  message.
\<close>

datatype error =
    RuntimeError string
  | FileNotFoundError string
  | FileExistsError
  | OSError
  | ValueError
  | IndexError
  | TypeError
  | BadZipFile
  | UnidentifiedImageError
  | ZeroDivisionError
  | KeyError

subsection \<open>Image tensors and \<open>transforms.Pad\<close>\<close>

text \<open>
  Pixel values play no part in the padding logic of \<open>__getitem__\<close>: it reads the shape of
  the tensor and passes border widths to \<open>transforms.Pad\<close>.  A tensor is therefore
  represented by its shape \<open>(channels, height, width)\<close>.
\<close>

type_synonym shape = "nat \<times> nat \<times> nat"

definition INPUT_SIZE :: "nat \<times> nat" where
  "INPUT_SIZE = (224, 224)"

definition PATCH_SIZE :: "nat \<times> nat" where
  "PATCH_SIZE = (16, 16)"

definition IN_CHANNELS :: nat where
  "IN_CHANNELS = 1"

text \<open>
  \<open>transforms.Pad((left, top, right, bottom))(img)\<close> on a tensor, with the four borders
  named \<open>pl\<close>, \<open>pt\<close>, \<open>pr\<close>, \<open>pb\<close> here: the borders are added to
  the two spatial dimensions (a negative border crops; a negative resulting size is an
  error of \<open>torch.nn.functional.pad\<close>).
\<close>

definition Pad :: "int \<times> int \<times> int \<times> int \<Rightarrow> shape \<Rightarrow> error + shape" where
  "Pad padding img =
     (case padding of (pl, pt, pr, pb) \<Rightarrow>
      case img of (c, h, w) \<Rightarrow>
        (let h' = int h + pt + pb; w' = int w + pl + pr
         in if h' < 0 \<or> w' < 0 then Inl (RuntimeError ''negative output size'')
            else Inr (c, nat h', nat w')))"

text \<open>
  The three branches of \<open>__getitem__\<close> (lines 127 to 139) choose the argument of
  \<open>transforms.Pad\<close> from the height \<open>h\<close> and width \<open>w\<close> of the transformed tensor.
  Python's \<open>//\<close> and \<open>%\<close> on integers are \<open>div\<close> and \<open>mod\<close> on \<open>int\<close>.
\<close>

definition pad_args :: "nat \<Rightarrow> nat \<Rightarrow> int \<times> int \<times> int \<times> int" where
  "pad_args h w =
     (if h > w then
        (let dim_gap = int h - int w;
             pad1 = dim_gap div 2;
             pad2 = (dim_gap + (dim_gap mod 2)) div 2
         in (pad1, 0, pad2, 0))
      else if h = w then
        (let dim_gap = int (fst INPUT_SIZE) - int h;
             pad1 = dim_gap;
             pad2 = dim_gap
         in (pad1, pad2, 0, 0))
      else
        (let dim_gap = int w - int h;
             pad1 = dim_gap div 2;
             pad2 = (dim_gap + (dim_gap mod 2)) div 2
         in (0, pad1, 0, pad2)))"





subsection \<open>The file system\<close>

text \<open>
  The code reads and changes the disk.  The disk is a map from path strings to nodes; paths
  are compared as strings, as written by the code (no normalisation).  A CSV node holds the
  text of the file as numpy's line splitters see it: one list of cells per line, split at
  the delimiter, a blank line being the empty list.  An image node holds the size
  \<open>(width, height)\<close> that PIL reports.  An archive node holds its members, each a relative
  name and a node.

  A label value is a double: a finite number, an infinity or a NaN; a finite double is
  given by the real number it stands for.  Python's \<open>float\<close> is not modelled: a cell of a
  CSV file is its text together with what \<open>float\<close> makes of that text, a double or \<open>None\<close>
  where \<open>float\<close> raises \<open>ValueError\<close> (as it does on the empty cell).
\<close>

datatype float64 = Finite real | PosInf | NegInf | NaN

datatype cell = Cell (cell_text: string) (cell_float: "float64 option")

datatype node =
    Dir
  | Csv "cell list list"
  | Image nat nat
  | Zip "(string \<times> node) list"

type_synonym filesystem = "string \<Rightarrow> node option"

definition exists :: "filesystem \<Rightarrow> string \<Rightarrow> bool" where
  "exists fs p = (fs p \<noteq> None)"

text \<open>\<open>os.path.join\<close> and \<open>os.path.dirname\<close> of \<open>posixpath\<close>, for two components.\<close>

definition path_join :: "string \<Rightarrow> string \<Rightarrow> string" where
  "path_join a b =
     (if b \<noteq> [] \<and> hd b = CHR ''/'' then b
      else if a = [] \<or> last a = CHR ''/'' then a @ b
      else a @ ''/'' @ b)"

definition dirname :: "string \<Rightarrow> string" where
  "dirname p =
     (let head = rev (dropWhile (\<lambda>c. c \<noteq> CHR ''/'') (rev p))
      in if head \<noteq> [] \<and> \<not> list_all (\<lambda>c. c = CHR ''/'') head
         then rev (dropWhile (\<lambda>c. c = CHR ''/'') (rev head))
         else head)"

text \<open>
  \<open>os.makedirs(name, exist_ok=True)\<close>: every leading directory of \<open>name\<close> and \<open>name\<close>
  itself is created unless it is there; a path that is there and is no directory is an
  error.
\<close>

definition dir_chain :: "string \<Rightarrow> string list" where
  "dir_chain p =
     filter (\<lambda>q. length q = length p \<or> p ! length q = CHR ''/'')
       (map (\<lambda>n. take n p) [1..<Suc (length p)])"

fun mkdirs :: "filesystem \<Rightarrow> string list \<Rightarrow> error + filesystem" where
  "mkdirs fs [] = Inr fs"
| "mkdirs fs (p # ps) =
     (case fs p of
        None \<Rightarrow> mkdirs (fs(p \<mapsto> Dir)) ps
      | Some Dir \<Rightarrow> mkdirs fs ps
      | Some _ \<Rightarrow> Inl FileExistsError)"

definition makedirs :: "filesystem \<Rightarrow> string \<Rightarrow> error + filesystem" where
  "makedirs fs name = mkdirs fs (dir_chain name)"

text \<open>
  \<open>torchvision.datasets.utils.extract_archive(from_path)\<close> with no target: the members
  are written below the directory that holds the archive, their leading directories being
  created on the way; the archive itself stays.
\<close>

fun extract_members ::
  "filesystem \<Rightarrow> string \<Rightarrow> (string \<times> node) list \<Rightarrow> error + filesystem" where
  "extract_members fs to_path [] = Inr fs"
| "extract_members fs to_path ((name, n) # ms) =
     (let target = path_join to_path name
      in case makedirs fs (dirname target) of
           Inl e \<Rightarrow> Inl e
         | Inr fs' \<Rightarrow> extract_members (fs'(target \<mapsto> n)) to_path ms)"

definition extract_archive :: "filesystem \<Rightarrow> string \<Rightarrow> error + filesystem" where
  "extract_archive fs from_path =
     (case fs from_path of
        None \<Rightarrow> Inl (FileNotFoundError from_path)
      | Some (Zip members) \<Rightarrow> extract_members fs (dirname from_path) members
      | Some Dir \<Rightarrow> Inl OSError
      | Some _ \<Rightarrow> Inl BadZipFile)"

subsection \<open>numpy arrays\<close>

text \<open>
  An array of the code has zero, one or two dimensions.  Both readers of the manifest end
  with \<open>np.squeeze\<close>, which removes every axis of length one: a table with one row
  becomes the row, a table with one column becomes the column, a table with one row and
  one column becomes a zero-dimensional array.  A table with no row is the array of shape
  \<open>(0,)\<close>.
\<close>

datatype 'a ndarray = Arr0 'a | Arr1 "'a list" | Arr2 "'a list list"

definition squeeze :: "'a list list \<Rightarrow> 'a ndarray" where
  "squeeze rows =
     (case rows of
        [] \<Rightarrow> Arr1 []
      | [r] \<Rightarrow> (case r of [x] \<Rightarrow> Arr0 x | _ \<Rightarrow> Arr1 r)
      | _ \<Rightarrow>
          (if list_all (\<lambda>r. length r = 1) rows then Arr1 (map hd rows) else Arr2 rows))"

text \<open>\<open>a.shape[0]\<close>: the shape of a zero-dimensional array is the empty tuple.\<close>

fun shape0 :: "'a ndarray \<Rightarrow> error + nat" where
  "shape0 (Arr0 x) = Inl IndexError"
| "shape0 (Arr1 xs) = Inr (length xs)"
| "shape0 (Arr2 rows) = Inr (length rows)"

text \<open>An integer index into an axis of length \<open>n\<close>: a negative index counts from the end.\<close>

definition py_index :: "nat \<Rightarrow> int \<Rightarrow> error + nat" where
  "py_index n i =
     (if 0 \<le> i \<and> i < int n then Inr (nat i)
      else if - int n \<le> i \<and> i < 0 then Inr (nat (i + int n))
      else Inl IndexError)"

text \<open>\<open>a[i]\<close> for an integer \<open>i\<close>.\<close>

fun getitem_int :: "'a ndarray \<Rightarrow> int \<Rightarrow> error + 'a ndarray" where
  "getitem_int (Arr0 x) i = Inl IndexError"
| "getitem_int (Arr1 xs) i =
     (case py_index (length xs) i of Inl e \<Rightarrow> Inl e | Inr k \<Rightarrow> Inr (Arr0 (xs ! k)))"
| "getitem_int (Arr2 rows) i =
     (case py_index (length rows) i of Inl e \<Rightarrow> Inl e | Inr k \<Rightarrow> Inr (Arr1 (rows ! k)))"

text \<open>\<open>a[idx]\<close> for an integer array \<open>idx\<close>: the entries of the first axis at these indices.\<close>

fun take_all :: "'a list \<Rightarrow> int list \<Rightarrow> error + 'a list" where
  "take_all xs [] = Inr []"
| "take_all xs (i # is) =
     (case py_index (length xs) i of
        Inl e \<Rightarrow> Inl e
      | Inr k \<Rightarrow> (case take_all xs is of Inl e \<Rightarrow> Inl e | Inr ys \<Rightarrow> Inr (xs ! k # ys)))"

fun getitem_array :: "'a ndarray \<Rightarrow> int list \<Rightarrow> error + 'a ndarray" where
  "getitem_array (Arr0 x) idx = Inl IndexError"
| "getitem_array (Arr1 xs) idx =
     (case take_all xs idx of Inl e \<Rightarrow> Inl e | Inr ys \<Rightarrow> Inr (Arr1 ys))"
| "getitem_array (Arr2 rows) idx =
     (case take_all rows idx of Inl e \<Rightarrow> Inl e | Inr ys \<Rightarrow> Inr (Arr2 ys))"

text \<open>
  The comparison \<open><\<close> of doubles (IEEE 754): a NaN is neither less nor greater than any
  value.
\<close>

fun float_less :: "float64 \<Rightarrow> float64 \<Rightarrow> bool" where
  "float_less NaN y = False"
| "float_less x NaN = False"
| "float_less (Finite a) (Finite b) = (a < b)"
| "float_less (Finite a) PosInf = True"
| "float_less (Finite a) NegInf = False"
| "float_less PosInf y = False"
| "float_less NegInf NegInf = False"
| "float_less NegInf y = True"

text \<open>
  \<open>np.maximum(a, v)\<close> for a scalar \<open>v\<close> works on every entry, whatever the shape: the
  larger of the entry and \<open>v\<close>, and the NaN where one of the two is a NaN.
\<close>

definition maximum_float :: "float64 \<Rightarrow> float64 \<Rightarrow> float64" where
  "maximum_float x y =
     (if x = NaN \<or> y = NaN then NaN else if float_less x y then y else x)"

definition maximum :: "float64 ndarray \<Rightarrow> float64 \<Rightarrow> float64 ndarray" where
  "maximum a v = map_ndarray (\<lambda>x. maximum_float x v) a"

text \<open>
  \<open>torch.tensor(a).long()\<close>: every entry is cast to a 64-bit integer, which truncates
  towards zero.  Where the truncated value is outside the 64-bit range, and at an infinity
  or a NaN, the cast has no defined result and the entry depends on the platform:
  \<open>undefined_cast\<close> stands for what the platform gives there, and nothing is assumed of it.
\<close>

definition long :: "(float64 \<Rightarrow> int) \<Rightarrow> float64 \<Rightarrow> int" where
  "long undefined_cast x =
     (case x of
        Finite r \<Rightarrow>
          (let t = (if 0 \<le> r then \<lfloor>r\<rfloor> else \<lceil>r\<rceil>)
           in if - (2 ^ 63) \<le> t \<and> t < 2 ^ 63 then t else undefined_cast x)
      | _ \<Rightarrow> undefined_cast x)"

subsection \<open>Reading the manifest\<close>

text \<open>
  \<open>np.loadtxt(fname, dtype=np.str, delimiter=',', skiprows=n, usecols=c)\<close>: the first
  \<open>n\<close> lines are skipped, blank lines are skipped, the text of the cell of column \<open>c\<close> of
  every other line is kept, and the table of one column is squeezed.
\<close>

definition loadtxt :: "filesystem \<Rightarrow> string \<Rightarrow> nat \<Rightarrow> nat \<Rightarrow> error + string ndarray" where
  "loadtxt fs fname skiprows usecols =
     (case fs fname of
        Some (Csv lines) \<Rightarrow>
          (let rows = filter (\<lambda>r. r \<noteq> []) (drop skiprows lines)
           in if \<exists>r \<in> set rows. length r \<le> usecols then Inl IndexError
              else Inr (squeeze (map (\<lambda>r. [cell_text (r ! usecols)]) rows)))
      | _ \<Rightarrow> Inl OSError)"

text \<open>
  \<open>np.genfromtxt(fname, dtype=np.float, delimiter=',', skip_header=n, usecols=cs,
  missing_values='', filling_values=v)\<close>: the first \<open>n\<close> lines are skipped, blank lines
  are skipped, a line that lacks one of the columns \<open>cs\<close> makes the call fail with
  \<open>ValueError\<close>; every kept cell is converted with \<open>float\<close>, a cell that does not convert
  (the empty cell among them) becoming the filling value; the table is squeezed.
\<close>

definition loose_float :: "float64 \<Rightarrow> cell \<Rightarrow> float64" where
  "loose_float filling c = (case cell_float c of None \<Rightarrow> filling | Some v \<Rightarrow> v)"

definition genfromtxt ::
  "filesystem \<Rightarrow> string \<Rightarrow> nat \<Rightarrow> nat list \<Rightarrow> float64 \<Rightarrow> error + float64 ndarray" where
  "genfromtxt fs fname skip_header usecols filling_values =
     (case fs fname of
        Some (Csv lines) \<Rightarrow>
          (let rows = filter (\<lambda>r. r \<noteq> []) (drop skip_header lines)
           in if \<exists>r \<in> set rows. \<exists>c \<in> set usecols. length r \<le> c then Inl ValueError
              else Inr (squeeze
                     (map (\<lambda>r. map (\<lambda>c. loose_float filling_values (r ! c)) usecols) rows)))
      | _ \<Rightarrow> Inl OSError)"

subsection \<open>Opening and transforming an image\<close>

text \<open>
  \<open>Image.open(path).convert("L")\<close>: a single-channel PIL image, represented by its size
  \<open>(width, height)\<close>.
\<close>

definition Image_open :: "filesystem \<Rightarrow> string \<Rightarrow> error + nat \<times> nat" where
  "Image_open fs path =
     (case fs path of
        None \<Rightarrow> Inl (FileNotFoundError path)
      | Some (Image w h) \<Rightarrow> Inr (w, h)
      | Some Dir \<Rightarrow> Inl OSError
      | Some _ \<Rightarrow> Inl UnidentifiedImageError)"

text \<open>
  \<open>transforms.Resize(size, max_size=max_size)\<close> for an integer \<open>size\<close> (written \<open>sz\<close>),
  as torchvision computes the output size: the shorter edge becomes \<open>sz\<close> and the longer
  edge keeps the aspect ratio; when the longer edge would exceed \<open>max_size\<close>, it becomes
  \<open>max_size\<close> and the shorter edge shrinks in proportion.  Python's \<open>int(a * b / c)\<close> on these
  non-negative integers is \<open>(a * b) div c\<close>.  PIL refuses an output edge of zero.
\<close>

definition Resize :: "nat \<Rightarrow> nat \<Rightarrow> nat \<times> nat \<Rightarrow> error + nat \<times> nat" where
  "Resize sz max_size img =
     (case img of (w, h) \<Rightarrow>
        (let short = (if w \<le> h then w else h);
             long = (if w \<le> h then h else w)
         in if short = 0 then Inl ZeroDivisionError
            else if max_size \<le> sz then Inl ValueError
            else
              (let new_short = sz;
                   new_long = (sz * long) div short;
                   capped = (if new_long > max_size
                             then ((max_size * new_short) div new_long, max_size)
                             else (new_short, new_long));
                   new_w = (if w \<le> h then fst capped else snd capped);
                   new_h = (if w \<le> h then snd capped else fst capped)
               in if new_w = 0 \<or> new_h = 0 then Inl ValueError else Inr (new_w, new_h))))"

text \<open>
  \<open>transforms.ToTensor()\<close> turns a single-channel PIL image of size \<open>(w, h)\<close> into a tensor
  of shape \<open>(1, h, w)\<close>; \<open>transforms.Normalize([0.5035], [0.2883])\<close> keeps the shape.
\<close>

definition ToTensor :: "nat \<times> nat \<Rightarrow> shape" where
  "ToTensor img = (case img of (w, h) \<Rightarrow> (1, h, w))"

definition Normalize :: "shape \<Rightarrow> shape" where
  "Normalize t = t"

definition TRANSFORMS :: "nat \<times> nat \<Rightarrow> error + shape" where
  "TRANSFORMS pil =
     (case Resize (fst INPUT_SIZE - 1) (fst INPUT_SIZE) pil of
        Inl e \<Rightarrow> Inl e
      | Inr r \<Rightarrow> Inr (Normalize (ToTensor r)))"

subsection \<open>The class \<open>CheXpert_Full\<close>\<close>

definition CHEXPERT_LABELS :: "(string \<times> int) list" where
  "CHEXPERT_LABELS =
     [(''No Finding'', 0),
      (''Enlarged Cardiomediastinum'', 1),
      (''Cardiomegaly'', 2),
      (''Lung Opacity'', 3),
      (''Lung Lesion'', 4),
      (''Edema'', 5),
      (''Consolidation'', 6),
      (''Pneumonia'', 7),
      (''Atelectasis'', 8),
      (''Pneumothorax'', 9),
      (''Pleural Effusion'', 10),
      (''Pleural Other'', 11),
      (''Fracture'', 12),
      (''Support Devices'', 13)]"

text \<open>\<open>CHEXPERT_LABELS[name]\<close>: a missing key raises \<open>KeyError\<close>.\<close>

definition label_index :: "string \<Rightarrow> error + int" where
  "label_index name =
     (case map_of CHEXPERT_LABELS name of None \<Rightarrow> Inl KeyError | Some i \<Rightarrow> Inr i)"

fun label_indices :: "string list \<Rightarrow> error + int list" where
  "label_indices [] = Inr []"
| "label_indices (name # names) =
     (case label_index name of
        Inl e \<Rightarrow> Inl e
      | Inr i \<Rightarrow> (case label_indices names of Inl e \<Rightarrow> Inl e | Inr js \<Rightarrow> Inr (i # js)))"

definition LABELS_COL :: nat where
  "LABELS_COL = 5"

definition CHEXPERT_LABELS_IDX :: "error + int list" where
  "CHEXPERT_LABELS_IDX =
     label_indices
       [''Atelectasis'', ''Enlarged Cardiomediastinum'', ''Cardiomegaly'',
        ''Lung Opacity'', ''Lung Lesion'', ''Edema'',
        ''Consolidation'', ''Pneumonia'', ''Atelectasis'',
        ''Pneumothorax'', ''Pleural Effusion'', ''Pleural Other'',
        ''Fracture'', ''Support Devices'']"

definition NUM_CLASSES :: nat where
  "NUM_CLASSES = 14"

text \<open>
  The attributes of a dataset object.  \<open>root\<close> and \<open>split\<close> are written \<open>root_dir\<close> and
  \<open>split_name\<close>.  Before \<open>build_index\<close> has run the two arrays are empty.
\<close>

record CheXpert_Full =
  root_dir :: string
  index_location :: string
  split_name :: string
  fnames :: "string ndarray"
  labels :: "float64 ndarray"

definition any_exist :: "filesystem \<Rightarrow> string list \<Rightarrow> bool" where
  "any_exist fs files = list_ex (exists fs) files"

text \<open>The closing loop of \<open>find_data\<close>: the first component that exists is returned.\<close>

fun first_existing :: "filesystem \<Rightarrow> string list \<Rightarrow> nat list \<Rightarrow> error + string" where
  "first_existing fs components [] =
     Inl (FileNotFoundError ''CheXpert data (full) not found'')"
| "first_existing fs components (i # is) =
     (if exists fs (components ! i) then Inr (components ! i)
      else first_existing fs components is)"

text \<open>
  \<open>find_data\<close>, with \<open>self.root\<close> as the argument \<open>self_root\<close>.  It returns the data
  folder, the disk as it has left it, and the lines it has printed.  The message of the
  first error is the prompt to download the data by hand; its first line stands for it.
\<close>

definition download_prompt :: string where
  "download_prompt =
     ''Visit https://stanfordmlgroup.github.io/competitions/chexpert/ to download the data''"

definition find_data ::
  "filesystem \<Rightarrow> string \<Rightarrow> error + string \<times> filesystem \<times> string list" where
  "find_data fs self_root =
     (case makedirs fs self_root of
        Inl e \<Rightarrow> Inl e
      | Inr fs1 \<Rightarrow>
          (let components =
                 map (\<lambda>x. path_join self_root (''CheXpert-v1.0'' @ x)) [[], ''.zip'']
           in if \<not> any_exist fs1 components then Inl (RuntimeError download_prompt)
              else
                (case (if \<not> any_exist fs1 (take 1 components)
                       then (if exists fs1 (components ! 1)
                             then (case extract_archive fs1 (components ! 1) of
                                     Inl e \<Rightarrow> Inl e
                                   | Inr fs2 \<Rightarrow>
                                       Inr (fs2, [''Extracting data...'', ''Done'']))
                             else Inr (fs1, []))
                       else Inr (fs1, [])) of
                   Inl e \<Rightarrow> Inl e
                 | Inr (fs2, printed) \<Rightarrow>
                     (case first_existing fs2 components [0, 1] of
                        Inl e \<Rightarrow> Inl e
                      | Inr p \<Rightarrow> Inr (p, fs2, printed)))))"

text \<open>
  \<open>build_index\<close> sets the two arrays of the object (the two lines it prints on every
  call are left out).
\<close>

definition build_index :: "filesystem \<Rightarrow> CheXpert_Full \<Rightarrow> error + CheXpert_Full" where
  "build_index fs self =
     (let index_file = path_join (index_location self) (split_name self @ ''.csv'')
      in case loadtxt fs index_file 1 0 of
           Inl e \<Rightarrow> Inl e
         | Inr names \<Rightarrow>
             (let end_col = LABELS_COL + length CHEXPERT_LABELS
              in case genfromtxt fs index_file 1 [LABELS_COL..<end_col] (Finite 0) of
                   Inl e \<Rightarrow> Inl e
                 | Inr labs \<Rightarrow>
                     Inr (self\<lparr>fnames := names, labels := maximum labs (Finite 0)\<rparr>)))"

text \<open>\<open>__init__\<close>; the \<open>download\<close> flag is not read.\<close>

definition init ::
  "filesystem \<Rightarrow> string \<Rightarrow> bool \<Rightarrow> bool \<Rightarrow> error + CheXpert_Full \<times> filesystem" where
  "init fs base_root download train =
     (let self_root = path_join (path_join base_root ''chest_xray'') ''chexpert_full''
      in case find_data fs self_root of
           Inl e \<Rightarrow> Inl e
         | Inr (loc, fs', printed) \<Rightarrow>
             (case build_index fs'
                     \<lparr>root_dir = self_root, index_location = loc,
                      split_name = (if train then ''train'' else ''valid''),
                      fnames = Arr1 [], labels = Arr1 []\<rparr> of
                Inl e \<Rightarrow> Inl e
              | Inr self \<Rightarrow> Inr (self, fs')))"

text \<open>\<open>__len__\<close>\<close>

definition len :: "CheXpert_Full \<Rightarrow> error + nat" where
  "len self = shape0 (fnames self)"

text \<open>
  \<open>__getitem__\<close>, with the platform's \<open>undefined_cast\<close> of \<open>long\<close> as an argument.  A file
  name that is not a single string cannot be joined to the root (\<open>TypeError\<close>).  The result
  is the index as given, the shape of the image tensor and the label tensor.
\<close>

definition getitem ::
  "(float64 \<Rightarrow> int) \<Rightarrow> filesystem \<Rightarrow> CheXpert_Full \<Rightarrow> int \<Rightarrow>
     error + int \<times> shape \<times> int ndarray" where
  "getitem undefined_cast fs self index =
     (case getitem_int (fnames self) index of
        Inl e \<Rightarrow> Inl e
      | Inr (Arr0 fname) \<Rightarrow>
          (case Image_open fs (path_join (root_dir self) fname) of
             Inl e \<Rightarrow> Inl e
           | Inr pil \<Rightarrow>
               (case TRANSFORMS pil of
                  Inl e \<Rightarrow> Inl e
                | Inr img \<Rightarrow>
                    (case img of (c, h, w) \<Rightarrow>
                       (case Pad (pad_args h w) img of
                          Inl e \<Rightarrow> Inl e
                        | Inr img' \<Rightarrow>
                            (case getitem_int (labels self) index of
                               Inl e \<Rightarrow> Inl e
                             | Inr row \<Rightarrow>
                                 (case CHEXPERT_LABELS_IDX of
                                    Inl e \<Rightarrow> Inl e
                                  | Inr idx \<Rightarrow>
                                      (case getitem_array row idx of
                                         Inl e \<Rightarrow> Inl e
                                       | Inr sel \<Rightarrow>
                                           Inr (index, img',
                                                map_ndarray (long undefined_cast) sel))))))))
      | Inr _ \<Rightarrow> Inl TypeError)"

definition num_classes :: nat where
  "num_classes = NUM_CLASSES"

subsection \<open>Names used in the statements\<close>

text \<open>
  The manifest of an object, and the two candidate paths of \<open>find_data\<close>
  (\<open>components[0]\<close> and \<open>components[1]\<close> of the code).
\<close>

definition index_file :: "CheXpert_Full \<Rightarrow> string" where
  "index_file self = path_join (index_location self) (split_name self @ ''.csv'')"

definition extracted_dir :: "string \<Rightarrow> string" where
  "extracted_dir self_root = path_join self_root ''CheXpert-v1.0''"

definition archive :: "string \<Rightarrow> string" where
  "archive self_root = path_join self_root ''CheXpert-v1.0.zip''"

text \<open>
  The words of the specification.  The data rows of a manifest are its lines after the
  header, blank lines left out.  The raw label row of a data row is its block of 14 label
  cells, each a value or missing (\<open>None\<close>: empty or unparseable).  Imputation turns a
  missing cell into 0, clamping turns a negative value into 0; the stored row is the raw
  row imputed, then clamped.
\<close>

definition data_rows :: "cell list list \<Rightarrow> cell list list" where
  "data_rows lines = filter (\<lambda>r. r \<noteq> []) (drop 1 lines)"

definition raw_label_row :: "cell list \<Rightarrow> float64 option list" where
  "raw_label_row r = map (\<lambda>c. cell_float (r ! c)) [5..<19]"

definition impute_missing_to_zero :: "float64 option \<Rightarrow> float64" where
  "impute_missing_to_zero c = (case c of None \<Rightarrow> Finite 0 | Some v \<Rightarrow> v)"

definition clamp_negative :: "float64 \<Rightarrow> float64" where
  "clamp_negative v = (if float_less v (Finite 0) then Finite 0 else v)"

definition stored_row :: "cell list \<Rightarrow> float64 list" where
  "stored_row r = map (\<lambda>c. clamp_negative (impute_missing_to_zero c)) (raw_label_row r)"

text \<open>
  The canonical class ordering of the specification, position 0 first, and the raw column
  of a class: its index in the label block of the manifest, as \<open>CHEXPERT_LABELS\<close> gives it.
\<close>

definition canonical_classes :: "string list" where
  "canonical_classes =
     [''Atelectasis'', ''Enlarged Cardiomediastinum'', ''Cardiomegaly'', ''Lung Opacity'',
      ''Lung Lesion'', ''Edema'', ''Consolidation'', ''Pneumonia'', ''Atelectasis'',
      ''Pneumothorax'', ''Pleural Effusion'', ''Pleural Other'', ''Fracture'',
      ''Support Devices'']"

definition raw_column :: "string \<Rightarrow> nat" where
  "raw_column name = nat (the (map_of CHEXPERT_LABELS name))"

subsection \<open>Example disks\<close>

text \<open>
  The cells of the examples: \<open>str_cell s\<close> is a cell whose text \<open>float\<close> rejects (a word, a
  path, the empty cell), \<open>num_cell s v\<close> is a cell whose text \<open>s\<close> is the decimal numeral of
  \<open>v\<close>.
\<close>

definition str_cell :: "string \<Rightarrow> cell" where
  "str_cell s = Cell s None"

definition num_cell :: "string \<Rightarrow> real \<Rightarrow> cell" where
  "num_cell s v = Cell s (Some (Finite v))"

text \<open>
  A disk with the extracted data: a \<open>train\<close> manifest of two data rows and a \<open>valid\<close>
  manifest of one.  The first data row holds the raw code \<open>2.0\<close>.  \<open>demo_train\<close> and
  \<open>demo_valid\<close> are the objects the constructor builds on this disk for the two splits.
\<close>

definition demo_header :: "cell list" where
  "demo_header =
     map str_cell
       [''Path'', ''Sex'', ''Age'', ''Frontal/Lateral'', ''AP/PA'',
        ''No Finding'', ''Enlarged Cardiomediastinum'', ''Cardiomegaly'', ''Lung Opacity'',
        ''Lung Lesion'', ''Edema'', ''Consolidation'', ''Pneumonia'', ''Atelectasis'',
        ''Pneumothorax'', ''Pleural Effusion'', ''Pleural Other'', ''Fracture'',
        ''Support Devices'']"

definition demo_row1 :: "cell list" where
  "demo_row1 =
     [str_cell ''CheXpert-v1.0/train/p1.jpg'', str_cell ''F'', num_cell ''68'' 68, str_cell ''Frontal'', str_cell ''AP'',
      str_cell [], num_cell ''1.0'' 1, num_cell ''0.0'' 0, num_cell ''-1.0'' (- 1), str_cell [], str_cell [], num_cell ''2.0'' 2,
      str_cell [], num_cell ''1.0'' 1, num_cell ''0.0'' 0, str_cell [], str_cell [], str_cell [], num_cell ''1.0'' 1]"

definition demo_row2 :: "cell list" where
  "demo_row2 =
     [str_cell ''CheXpert-v1.0/train/p2.jpg'', str_cell ''M'', num_cell ''50'' 50, str_cell ''Lateral'', str_cell [],
      num_cell ''1.0'' 1, str_cell [], num_cell ''0.0'' 0, num_cell ''-1.0'' (- 1), str_cell [], str_cell [], str_cell [],
      str_cell [], num_cell ''-1.0'' (- 1), num_cell ''0.0'' 0, str_cell [], str_cell [], str_cell [], str_cell []]"

definition demo_disk :: filesystem where
  "demo_disk =
     [''/d'' \<mapsto> Dir,
      ''/d/chest_xray'' \<mapsto> Dir,
      ''/d/chest_xray/chexpert_full'' \<mapsto> Dir,
      ''/d/chest_xray/chexpert_full/CheXpert-v1.0'' \<mapsto> Dir,
      ''/d/chest_xray/chexpert_full/CheXpert-v1.0/train.csv'' \<mapsto>
        Csv [demo_header, demo_row1, demo_row2],
      ''/d/chest_xray/chexpert_full/CheXpert-v1.0/valid.csv'' \<mapsto>
        Csv [demo_header, demo_row1],
      ''/d/chest_xray/chexpert_full/CheXpert-v1.0/train'' \<mapsto> Dir,
      ''/d/chest_xray/chexpert_full/CheXpert-v1.0/train/p1.jpg'' \<mapsto> Image 320 390,
      ''/d/chest_xray/chexpert_full/CheXpert-v1.0/train/p2.jpg'' \<mapsto> Image 390 320]"

definition demo_self :: "string \<Rightarrow> CheXpert_Full" where
  "demo_self s =
     \<lparr>root_dir = ''/d/chest_xray/chexpert_full'',
      index_location = ''/d/chest_xray/chexpert_full/CheXpert-v1.0'',
      split_name = s,
      fnames = Arr1 [], labels = Arr1 []\<rparr>"

definition demo_train :: CheXpert_Full where
  "demo_train =
     \<lparr>root_dir = ''/d/chest_xray/chexpert_full'',
      index_location = ''/d/chest_xray/chexpert_full/CheXpert-v1.0'',
      split_name = ''train'',
      fnames = Arr1 [''CheXpert-v1.0/train/p1.jpg'', ''CheXpert-v1.0/train/p2.jpg''],
      labels = Arr2 [map Finite [0, 1, 0, 0, 0, 0, 2, 0, 1, 0, 0, 0, 0, 1],
                     map Finite [1, 0, 0, 0, 0, 0, 0, 0, 0, 0, 0, 0, 0, 0]]\<rparr>"

definition demo_valid :: CheXpert_Full where
  "demo_valid =
     \<lparr>root_dir = ''/d/chest_xray/chexpert_full'',
      index_location = ''/d/chest_xray/chexpert_full/CheXpert-v1.0'',
      split_name = ''valid'',
      fnames = Arr0 ''CheXpert-v1.0/train/p1.jpg'',
      labels = Arr1 (map Finite [0, 1, 0, 0, 0, 0, 2, 0, 1, 0, 0, 0, 0, 1])\<rparr>"

text \<open>
  A cast for the examples: the least 64-bit integer wherever the cast is undefined.  The
  label values of the example index are 0, 1 and 2, where it is not consulted.
\<close>

definition demo_cast :: "float64 \<Rightarrow> int" where
  "demo_cast x = - (2 ^ 63)"

text \<open>A disk that holds the archive only, and the same disk after extraction.\<close>

definition demo_archive_disk :: filesystem where
  "demo_archive_disk =
     [''/d'' \<mapsto> Dir,
      ''/d/chest_xray'' \<mapsto> Dir,
      ''/d/chest_xray/chexpert_full'' \<mapsto> Dir,
      ''/d/chest_xray/chexpert_full/CheXpert-v1.0.zip'' \<mapsto>
        Zip [(''CheXpert-v1.0/train.csv'', Csv [demo_header, demo_row1, demo_row2])]]"

definition demo_extracted_disk :: filesystem where
  "demo_extracted_disk =
     demo_archive_disk
       (''/d/chest_xray/chexpert_full/CheXpert-v1.0'' \<mapsto> Dir,
        ''/d/chest_xray/chexpert_full/CheXpert-v1.0/train.csv'' \<mapsto>
          Csv [demo_header, demo_row1, demo_row2])"

section \<open>Padding\<close>





section \<open>The layout resolver\<close>

lemma mkdirs_other:
  assumes "mkdirs fs ps = Inr fs'" and "q \<notin> set ps"
  shows "fs' q = fs q"
  using assms
proof (induction ps arbitrary: fs)
  case Nil
  then show ?case by simp
next
  case (Cons p ps)
  show ?case
  proof (cases "fs p")
    case None
    with Cons.prems have "mkdirs (fs(p \<mapsto> Dir)) ps = Inr fs'" by simp
    from Cons.IH [OF this] Cons.prems(2) show ?thesis by simp
  next
    case (Some n)
    with Cons.prems have "mkdirs fs ps = Inr fs'"
      by (cases n) simp_all
    from Cons.IH [OF this] Cons.prems(2) show ?thesis by simp
  qed
qed

lemma dir_chain_length: "q \<in> set (dir_chain p) \<Longrightarrow> length q \<le> length p"
  by (auto simp: dir_chain_def)

lemma path_join_longer:
  assumes "x \<noteq> []" and "hd x \<noteq> CHR ''/''"
  shows "length self_root < length (path_join self_root x)"
  using assms by (simp add: path_join_def)

lemma makedirs_component:
  assumes "makedirs fs self_root = Inr fs1" and "x \<noteq> []" and "hd x \<noteq> CHR ''/''"
  shows "fs1 (path_join self_root x) = fs (path_join self_root x)"
proof -
  have "path_join self_root x \<notin> set (dir_chain self_root)"
    using dir_chain_length [of "path_join self_root x" self_root]
      path_join_longer [OF assms(2,3), of self_root] by auto
  with assms(1) show ?thesis
    unfolding makedirs_def by (rule mkdirs_other)
qed

lemma makedirs_components:
  assumes "makedirs fs self_root = Inr fs1"
  shows "exists fs1 (extracted_dir self_root) = exists fs (extracted_dir self_root)"
    and "exists fs1 (archive self_root) = exists fs (archive self_root)"
  using makedirs_component [OF assms, of "''CheXpert-v1.0''"]
    makedirs_component [OF assms, of "''CheXpert-v1.0.zip''"]
  by (simp_all add: exists_def extracted_dir_def archive_def)

lemma mkdirs_error: "mkdirs fs ps = Inl e \<Longrightarrow> e = FileExistsError"
proof (induction ps arbitrary: fs)
  case Nil
  then show ?case by simp
next
  case (Cons p ps)
  then show ?case
    by (cases "fs p") (auto split: node.splits)
qed

lemma extract_members_error:
  "extract_members fs to_path ms = Inl e \<Longrightarrow> e = FileExistsError"
proof (induction ms arbitrary: fs)
  case Nil
  then show ?case by simp
next
  case (Cons m ms)
  obtain name n where m: "m = (name, n)" by (cases m)
  from Cons show ?case
    unfolding m by (auto simp: Let_def makedirs_def split: sum.splits dest: mkdirs_error)
qed

lemma extract_archive_error:
  "extract_archive fs p = Inl e \<Longrightarrow> e \<noteq> RuntimeError m"
  by (auto simp: extract_archive_def split: option.splits node.splits
      dest: extract_members_error)

lemma components_eq:
  "map (\<lambda>x. path_join self_root (''CheXpert-v1.0'' @ x)) [[], ''.zip''] =
     [extracted_dir self_root, archive self_root]"
  by (simp add: extracted_dir_def archive_def)

lemma find_data_after_makedirs:
  assumes "makedirs fs self_root = Inr fs1"
  shows "find_data fs self_root =
     (if \<not> exists fs1 (extracted_dir self_root) \<and> \<not> exists fs1 (archive self_root)
      then Inl (RuntimeError download_prompt)
      else if exists fs1 (extracted_dir self_root)
      then Inr (extracted_dir self_root, fs1, [])
      else (case extract_archive fs1 (archive self_root) of
              Inl e \<Rightarrow> Inl e
            | Inr fs2 \<Rightarrow>
                if exists fs2 (extracted_dir self_root)
                then Inr (extracted_dir self_root, fs2, [''Extracting data...'', ''Done''])
                else if exists fs2 (archive self_root)
                then Inr (archive self_root, fs2, [''Extracting data...'', ''Done''])
                else Inl (FileNotFoundError ''CheXpert data (full) not found'')))"
  unfolding find_data_def components_eq
  by (simp add: assms any_exist_def Let_def split: sum.splits)

text \<open>
  C9: provided the root directory can be created, the resolver raises the download prompt
  exactly when neither the extracted directory nor the archive exists; when the extracted
  directory exists it is returned, the disk is as \<open>os.makedirs\<close> left it and nothing is
  printed (no extraction); otherwise the archive is extracted and the resolver returns
  the extracted directory if it now exists, else the archive, else it raises
  \<open>FileNotFoundError\<close>, an error other than the download prompt.
\<close>

theorem find_data_resolves_layout:
  assumes "makedirs fs self_root = Inr fs1"
  shows "(find_data fs self_root = Inl (RuntimeError download_prompt) \<longleftrightarrow>
            \<not> exists fs (extracted_dir self_root) \<and> \<not> exists fs (archive self_root)) \<and>
         (exists fs (extracted_dir self_root) \<longrightarrow>
            find_data fs self_root = Inr (extracted_dir self_root, fs1, [])) \<and>
         (\<not> exists fs (extracted_dir self_root) \<and> exists fs (archive self_root) \<longrightarrow>
            find_data fs self_root =
              (case extract_archive fs1 (archive self_root) of
                 Inl e \<Rightarrow> Inl e
               | Inr fs2 \<Rightarrow>
                   if exists fs2 (extracted_dir self_root)
                   then Inr (extracted_dir self_root, fs2, [''Extracting data...'', ''Done''])
                   else if exists fs2 (archive self_root)
                   then Inr (archive self_root, fs2, [''Extracting data...'', ''Done''])
                   else Inl (FileNotFoundError ''CheXpert data (full) not found''))) \<and>
         FileNotFoundError ''CheXpert data (full) not found'' \<noteq> RuntimeError download_prompt"
proof -
  note same = makedirs_components [OF assms]
  note fd = find_data_after_makedirs [OF assms, unfolded same]
  have "find_data fs self_root \<noteq> Inl (RuntimeError download_prompt)"
    if "exists fs (extracted_dir self_root) \<or> exists fs (archive self_root)"
    using that extract_archive_error [of fs1 "archive self_root" _ download_prompt]
    unfolding fd by (auto split: sum.splits)
  then show ?thesis
    unfolding fd by auto
qed

lemma demo_dir_chain:
  "dir_chain ''/d/chest_xray/chexpert_full'' = [''/d'', ''/d/chest_xray'', ''/d/chest_xray/chexpert_full'']"
  "dir_chain ''/d/chest_xray/chexpert_full/CheXpert-v1.0'' =
     [''/d'', ''/d/chest_xray'', ''/d/chest_xray/chexpert_full'', ''/d/chest_xray/chexpert_full/CheXpert-v1.0'']"
  by (simp_all add: dir_chain_def)

lemma demo_paths:
  "extracted_dir ''/d/chest_xray/chexpert_full'' = ''/d/chest_xray/chexpert_full/CheXpert-v1.0''"
  "archive ''/d/chest_xray/chexpert_full'' = ''/d/chest_xray/chexpert_full/CheXpert-v1.0.zip''"
  "dirname ''/d/chest_xray/chexpert_full/CheXpert-v1.0.zip'' = ''/d/chest_xray/chexpert_full''"
  "path_join ''/d/chest_xray/chexpert_full'' ''CheXpert-v1.0/train.csv'' = ''/d/chest_xray/chexpert_full/CheXpert-v1.0/train.csv''"
  "dirname ''/d/chest_xray/chexpert_full/CheXpert-v1.0/train.csv'' = ''/d/chest_xray/chexpert_full/CheXpert-v1.0''"
  "path_join (path_join ''/d'' ''chest_xray'') ''chexpert_full'' = ''/d/chest_xray/chexpert_full''"
  by (simp_all add: extracted_dir_def archive_def path_join_def dirname_def)

lemma demo_makedirs:
  "makedirs Map.empty ''/d/chest_xray/chexpert_full'' =
     Inr [''/d'' \<mapsto> Dir, ''/d/chest_xray'' \<mapsto> Dir, ''/d/chest_xray/chexpert_full'' \<mapsto> Dir]"
  "makedirs demo_disk ''/d/chest_xray/chexpert_full'' = Inr demo_disk"
  "makedirs demo_archive_disk ''/d/chest_xray/chexpert_full'' = Inr demo_archive_disk"
  "makedirs demo_extracted_disk ''/d/chest_xray/chexpert_full'' = Inr demo_extracted_disk"
  by (simp_all add: makedirs_def demo_dir_chain demo_disk_def demo_archive_disk_def
      demo_extracted_disk_def)

lemma demo_extract:
  "extract_archive demo_archive_disk ''/d/chest_xray/chexpert_full/CheXpert-v1.0.zip'' = Inr demo_extracted_disk"
proof -
  have made: "makedirs demo_archive_disk ''/d/chest_xray/chexpert_full/CheXpert-v1.0'' =
      Inr (demo_archive_disk(''/d/chest_xray/chexpert_full/CheXpert-v1.0'' \<mapsto> Dir))"
    by (simp add: makedirs_def demo_dir_chain demo_archive_disk_def)
  have member: "demo_archive_disk ''/d/chest_xray/chexpert_full/CheXpert-v1.0.zip'' =
      Some (Zip [(''CheXpert-v1.0/train.csv'', Csv [demo_header, demo_row1, demo_row2])])"
    by (simp add: demo_archive_disk_def)
  show ?thesis
    by (simp add: extract_archive_def member Let_def demo_paths made demo_extracted_disk_def)
qed

text \<open>
  The resolver on the empty disk, on the disk with the extracted data, on the disk with
  the archive only, and once more on that disk after the extraction.
\<close>

theorem find_data_resolves_layout_witness:
  "find_data Map.empty ''/d/chest_xray/chexpert_full'' = Inl (RuntimeError download_prompt) \<and>
   find_data demo_disk ''/d/chest_xray/chexpert_full'' = Inr (''/d/chest_xray/chexpert_full/CheXpert-v1.0'', demo_disk, []) \<and>
   find_data demo_archive_disk ''/d/chest_xray/chexpert_full'' =
     Inr (''/d/chest_xray/chexpert_full/CheXpert-v1.0'', demo_extracted_disk, [''Extracting data...'', ''Done'']) \<and>
   find_data demo_extracted_disk ''/d/chest_xray/chexpert_full'' = Inr (''/d/chest_xray/chexpert_full/CheXpert-v1.0'', demo_extracted_disk, [])"
proof -
  have ex: "\<not> exists Map.empty ''/d/chest_xray/chexpert_full/CheXpert-v1.0''"
    "\<not> exists Map.empty ''/d/chest_xray/chexpert_full/CheXpert-v1.0.zip''"
    "exists demo_disk ''/d/chest_xray/chexpert_full/CheXpert-v1.0''"
    "\<not> exists demo_archive_disk ''/d/chest_xray/chexpert_full/CheXpert-v1.0''"
    "exists demo_archive_disk ''/d/chest_xray/chexpert_full/CheXpert-v1.0.zip''"
    "exists demo_extracted_disk ''/d/chest_xray/chexpert_full/CheXpert-v1.0''"
    by (simp_all add: exists_def demo_disk_def demo_archive_disk_def demo_extracted_disk_def)
  show ?thesis
    using find_data_resolves_layout [OF demo_makedirs(1)]
          find_data_resolves_layout [OF demo_makedirs(2)]
          find_data_resolves_layout [OF demo_makedirs(3)]
          find_data_resolves_layout [OF demo_makedirs(4)]
    by (simp add: demo_paths ex demo_extract)
qed

section \<open>Reading the manifest\<close>

subsection \<open>What \<open>build_index\<close> stores\<close>

lemma label_columns: "[LABELS_COL..<LABELS_COL + length CHEXPERT_LABELS] = [5..<19]"
  by (simp add: LABELS_COL_def CHEXPERT_LABELS_def)

lemma maximum_float_zero: "maximum_float v (Finite 0) = clamp_negative v"
  by (cases v) (simp_all add: maximum_float_def clamp_negative_def)

lemma store_cell:
  "maximum_float (loose_float (Finite 0) c) (Finite 0) =
     clamp_negative (impute_missing_to_zero (cell_float c))"
  by (simp add: maximum_float_zero loose_float_def impute_missing_to_zero_def
      split: option.split)

lemma hd_map_single: "length r = Suc 0 \<Longrightarrow> hd (map f r) = f (hd r)"
  by (cases r) auto

lemma map_ndarray_squeeze: "map_ndarray f (squeeze rows) = squeeze (map (map f) rows)"
proof (cases rows)
  case Nil
  then show ?thesis by (simp add: squeeze_def)
next
  case (Cons r rs)
  show ?thesis
  proof (cases rs)
    case Nil
    with Cons show ?thesis
      by (cases r; cases "tl r") (auto simp: squeeze_def split: list.splits)
  next
    case (Cons r' rs')
    with \<open>rows = r # rs\<close> show ?thesis
      by (auto simp: squeeze_def list_all_iff hd_map_single)
  qed
qed

lemma squeeze_column:
  "squeeze (map (\<lambda>r. [f r]) rows) = (case rows of [r] \<Rightarrow> Arr0 (f r) | _ \<Rightarrow> Arr1 (map f rows))"
  by (cases rows; cases "tl rows") (auto simp: squeeze_def list_all_iff o_def)

lemma squeeze_wide:
  assumes "\<forall>r \<in> set rows. length r \<noteq> 1"
  shows "squeeze rows = (case rows of [] \<Rightarrow> Arr1 [] | [r] \<Rightarrow> Arr1 r | _ \<Rightarrow> Arr2 rows)"
proof (cases rows)
  case Nil
  then show ?thesis by (simp add: squeeze_def)
next
  case (Cons r rs)
  with assms have r: "length r \<noteq> 1" by simp
  show ?thesis
  proof (cases rs)
    case Nil
    with Cons r show ?thesis
      by (cases r; cases "tl r") (auto simp: squeeze_def)
  next
    case (Cons r' rs')
    with \<open>rows = r # rs\<close> r show ?thesis
      by (simp add: squeeze_def)
  qed
qed

lemma loadtxt_Inr:
  assumes "loadtxt fs f n c = Inr a" and "fs f = Some (Csv lines)"
  shows "a = squeeze (map (\<lambda>r. [cell_text (r ! c)]) (filter (\<lambda>r. r \<noteq> []) (drop n lines)))"
  using assms by (auto simp: loadtxt_def Let_def split: if_splits)

lemma genfromtxt_Inr:
  assumes "genfromtxt fs f n cs v = Inr a" and "fs f = Some (Csv lines)"
  shows "a = squeeze (map (\<lambda>r. map (\<lambda>c. loose_float v (r ! c)) cs)
                       (filter (\<lambda>r. r \<noteq> []) (drop n lines)))"
    and "\<forall>r \<in> set (filter (\<lambda>r. r \<noteq> []) (drop n lines)). \<forall>c \<in> set cs. c < length r"
  using assms by (auto simp: genfromtxt_def Let_def not_le split: if_splits)

lemma length_stored_row: "length (stored_row r) = 14"
  by (simp add: stored_row_def raw_label_row_def del: upt_rec_numeral)

lemma squeeze_stored_rows:
  "squeeze (map stored_row rows) =
     (case rows of [] \<Rightarrow> Arr1 [] | [r] \<Rightarrow> Arr1 (stored_row r) | _ \<Rightarrow> Arr2 (map stored_row rows))"
proof -
  have "\<forall>r \<in> set (map stored_row rows). length r \<noteq> 1"
    by (simp add: length_stored_row)
  from squeeze_wide [OF this] show ?thesis
    by (cases rows; cases "tl rows") auto
qed

lemma build_index_Inr:
  assumes "build_index fs self = Inr self'"
      and "fs (index_file self) = Some (Csv lines)"
  shows "fnames self' = squeeze (map (\<lambda>r. [cell_text (r ! 0)]) (data_rows lines))"
    and "labels self' = squeeze (map stored_row (data_rows lines))"
    and "\<forall>r \<in> set (data_rows lines). 19 \<le> length r"
    and "root_dir self' = root_dir self"
    and "index_location self' = index_location self"
    and "split_name self' = split_name self"
proof -
  let ?rows = "data_rows lines"
  from assms(1) obtain names labs where
    names: "loadtxt fs (index_file self) 1 0 = Inr names" and
    labs: "genfromtxt fs (index_file self) 1 [5..<19] (Finite 0) = Inr labs" and
    self': "self' = self\<lparr>fnames := names, labels := maximum labs (Finite 0)\<rparr>"
    unfolding build_index_def index_file_def Let_def label_columns
    by (auto split: sum.splits)
  from loadtxt_Inr [OF names assms(2)]
  show "fnames self' = squeeze (map (\<lambda>r. [cell_text (r ! 0)]) ?rows)"
    by (simp add: self' data_rows_def)
  show "root_dir self' = root_dir self"
    and "index_location self' = index_location self"
    and "split_name self' = split_name self"
    by (simp_all add: self')
  from genfromtxt_Inr(1) [OF labs assms(2)]
  show "labels self' = squeeze (map stored_row ?rows)"
    by (simp add: self' maximum_def map_ndarray_squeeze stored_row_def [abs_def]
        raw_label_row_def store_cell o_def data_rows_def del: upt_rec_numeral)
  show "\<forall>r \<in> set ?rows. 19 \<le> length r"
  proof
    fix r assume "r \<in> set ?rows"
    with genfromtxt_Inr(2) [OF labs assms(2)] have "18 < length r"
      by (auto simp: data_rows_def)
    then show "19 \<le> length r" by simp
  qed
qed

text \<open>
  With any number of data rows other than one, the length of the object is the number of
  data rows and the paths keep the order of the manifest.
\<close>

lemma len_counts_data_rows:
  assumes "build_index fs self = Inr self'"
      and "fs (index_file self) = Some (Csv lines)"
      and "length (data_rows lines) \<noteq> 1"
  shows "len self' = Inr (length (data_rows lines))"
    and "shape0 (labels self') = Inr (length (data_rows lines))"
    and "i < length (data_rows lines) \<Longrightarrow>
           getitem_int (fnames self') (int i) =
             Inr (Arr0 (cell_text (data_rows lines ! i ! 0)))"
proof -
  from assms(3) have names:
    "fnames self' = Arr1 (map (\<lambda>r. cell_text (r ! 0)) (data_rows lines))"
    unfolding build_index_Inr(1) [OF assms(1,2)] squeeze_column
    by (cases "data_rows lines"; cases "tl (data_rows lines)") auto
  then show "len self' = Inr (length (data_rows lines))"
    by (simp add: len_def)
  from assms(3) show "shape0 (labels self') = Inr (length (data_rows lines))"
    unfolding build_index_Inr(2) [OF assms(1,2)] squeeze_stored_rows
    by (cases "data_rows lines"; cases "tl (data_rows lines)") auto
  show "getitem_int (fnames self') (int i) = Inr (Arr0 (cell_text (data_rows lines ! i ! 0)))"
    if "i < length (data_rows lines)"
    using that by (simp add: names py_index_def)
qed

lemma built_arrays:
  assumes "build_index fs0 self0 = Inr self"
      and "fs0 (index_file self0) = Some (Csv lines)"
      and "len self = Inr n"
  shows "n = length (data_rows lines)"
    and "0 < n \<Longrightarrow> fnames self = Arr1 (map (\<lambda>r. cell_text (r ! 0)) (data_rows lines))"
    and "0 < n \<Longrightarrow> labels self = Arr2 (map stored_row (data_rows lines))"
proof -
  let ?rows = "data_rows lines"
  have names: "fnames self =
      (case ?rows of [r] \<Rightarrow> Arr0 (cell_text (r ! 0))
       | _ \<Rightarrow> Arr1 (map (\<lambda>r. cell_text (r ! 0)) ?rows))"
    unfolding build_index_Inr(1) [OF assms(1,2)] squeeze_column ..
  have not1: "length ?rows \<noteq> 1"
  proof
    assume "length ?rows = 1"
    then obtain r where "?rows = [r]"
      by (cases ?rows) auto
    with names assms(3) show False
      by (simp add: len_def)
  qed
  from len_counts_data_rows(1) [OF assms(1,2) not1] assms(3)
  show n: "n = length ?rows" by simp
  show "fnames self = Arr1 (map (\<lambda>r. cell_text (r ! 0)) ?rows)" if "0 < n"
    using names not1 by (cases ?rows; cases "tl ?rows") auto
  show "labels self = Arr2 (map stored_row ?rows)" if "0 < n"
    using that not1 unfolding n build_index_Inr(2) [OF assms(1,2)] squeeze_stored_rows
    by (cases ?rows; cases "tl ?rows") auto
qed

subsection \<open>The example index\<close>

lemma demo_index_file:
  "index_file (demo_self ''train'') = ''/d/chest_xray/chexpert_full/CheXpert-v1.0/train.csv''"
  "index_file (demo_self ''valid'') = ''/d/chest_xray/chexpert_full/CheXpert-v1.0/valid.csv''"
  by (simp_all add: index_file_def demo_self_def path_join_def)

lemma demo_build_train: "build_index demo_disk (demo_self ''train'') = Inr demo_train"
  by (simp add: build_index_def demo_self_def demo_train_def path_join_def loadtxt_def
      genfromtxt_def LABELS_COL_def CHEXPERT_LABELS_def demo_disk_def demo_header_def
      demo_row1_def demo_row2_def str_cell_def num_cell_def squeeze_def maximum_def maximum_float_def
      loose_float_def Let_def)

lemma demo_build_valid: "build_index demo_disk (demo_self ''valid'') = Inr demo_valid"
  by (simp add: build_index_def demo_self_def demo_valid_def path_join_def loadtxt_def
      genfromtxt_def LABELS_COL_def CHEXPERT_LABELS_def demo_disk_def demo_header_def
      demo_row1_def str_cell_def num_cell_def squeeze_def maximum_def maximum_float_def
      loose_float_def Let_def)

text \<open>The constructor on the example disk builds the two example objects.\<close>

lemma demo_init:
  "init demo_disk ''/d'' False True = Inr (demo_train, demo_disk)"
  "init demo_disk ''/d'' False False = Inr (demo_valid, demo_disk)"
proof -
  have found: "find_data demo_disk ''/d/chest_xray/chexpert_full'' =
      Inr (''/d/chest_xray/chexpert_full/CheXpert-v1.0'', demo_disk, [])"
    unfolding find_data_after_makedirs [OF demo_makedirs(2)] demo_paths
    by (simp add: exists_def demo_disk_def)
  show "init demo_disk ''/d'' False True = Inr (demo_train, demo_disk)"
    using demo_build_train by (simp add: init_def demo_paths found demo_self_def)
  show "init demo_disk ''/d'' False False = Inr (demo_valid, demo_disk)"
    using demo_build_valid by (simp add: init_def demo_paths found demo_self_def)
qed

lemma CHEXPERT_LABELS_IDX_eq:
  "CHEXPERT_LABELS_IDX = Inr [8, 1, 2, 3, 4, 5, 6, 7, 8, 9, 10, 11, 12, 13]"
  by (simp add: CHEXPERT_LABELS_IDX_def label_index_def CHEXPERT_LABELS_def)

lemma demo_getitem:
  "getitem demo_cast demo_disk demo_train 0 =
     Inr (0, (1, 224, 224), Arr1 [1, 1, 0, 0, 0, 0, 2, 0, 1, 0, 0, 0, 0, 1])"
  "getitem demo_cast demo_disk demo_train 1 =
     Inr (1, (1, 224, 224), Arr1 [0, 0, 0, 0, 0, 0, 0, 0, 0, 0, 0, 0, 0, 0])"
  "getitem demo_cast demo_disk demo_train (- 1) =
     Inr (- 1, (1, 224, 224), Arr1 [0, 0, 0, 0, 0, 0, 0, 0, 0, 0, 0, 0, 0, 0])"
  "getitem demo_cast demo_disk demo_train 2 = Inl IndexError"
  "getitem demo_cast demo_disk demo_train (- 3) = Inl IndexError"
  by (simp_all add: getitem_def demo_train_def demo_disk_def py_index_def path_join_def
      Image_open_def TRANSFORMS_def Resize_def INPUT_SIZE_def ToTensor_def Normalize_def
      pad_args_def Pad_def CHEXPERT_LABELS_IDX_eq long_def Let_def)

subsection \<open>Imputation and clamping\<close>

text \<open>
  C1: for every raw label row read from the split CSV, the stored label row is the raw row
  with every missing cell (empty or unparseable) imputed to 0 and then every negative value
  replaced by 0, that is numpy's maximum of the imputed cell and 0 in every cell.  The
  stored array is the squeezed table of these rows; with two or more data rows, row \<open>i\<close>
  of the stored matrix is the transformed row \<open>i\<close> of the manifest.  The raw cells \<open>-1\<close>,
  empty, \<open>1\<close>, \<open>0\<close> are stored as \<open>0, 0, 1, 0\<close>.
\<close>

theorem stored_labels_impute_then_clamp:
  assumes "build_index fs self = Inr self'"
      and "fs (index_file self) = Some (Csv lines)"
  shows "labels self' =
           squeeze (map (\<lambda>r. map (\<lambda>c. maximum_float (impute_missing_to_zero c) (Finite 0))
                                (raw_label_row r))
                      (data_rows lines)) \<and>
         (\<forall>c. maximum_float (impute_missing_to_zero c) (Finite 0) =
                clamp_negative (impute_missing_to_zero c)) \<and>
         (2 \<le> length (data_rows lines) \<longrightarrow>
            (\<forall>i < length (data_rows lines).
               getitem_int (labels self') (int i) =
                 Inr (Arr1 (map (\<lambda>c. maximum_float (impute_missing_to_zero c) (Finite 0))
                              (raw_label_row (data_rows lines ! i)))))) \<and>
         maximum
           (Arr1 (map (loose_float (Finite 0))
                    [Cell ''-1'' (Some (Finite (- 1))), Cell [] None,
                     Cell ''1'' (Some (Finite 1)), Cell ''0'' (Some (Finite 0))]))
           (Finite 0) =
         Arr1 [Finite 0, Finite 0, Finite 1, Finite 0]"
proof -
  have row: "map (\<lambda>c. maximum_float (impute_missing_to_zero c) (Finite 0)) (raw_label_row r) =
      stored_row r" for r
    by (simp add: stored_row_def maximum_float_zero)
  have stored: "labels self' = squeeze (map stored_row (data_rows lines))"
    by (rule build_index_Inr(2) [OF assms])
  have rows: "getitem_int (labels self') (int i) = Inr (Arr1 (stored_row (data_rows lines ! i)))"
    if "2 \<le> length (data_rows lines)" and "i < length (data_rows lines)" for i
  proof -
    from that(1) have "labels self' = Arr2 (map stored_row (data_rows lines))"
      unfolding stored squeeze_stored_rows
      by (cases "data_rows lines"; cases "tl (data_rows lines)") auto
    with that(2) show ?thesis
      by (simp add: py_index_def)
  qed
  show ?thesis
  proof (intro conjI allI impI)
    show "labels self' =
        squeeze (map (\<lambda>r. map (\<lambda>c. maximum_float (impute_missing_to_zero c) (Finite 0))
                             (raw_label_row r))
                   (data_rows lines))"
      by (simp add: stored row)
  next
    fix c show "maximum_float (impute_missing_to_zero c) (Finite 0) =
        clamp_negative (impute_missing_to_zero c)"
      by (rule maximum_float_zero)
  next
    fix i assume "2 \<le> length (data_rows lines)" and "i < length (data_rows lines)"
    then show "getitem_int (labels self') (int i) =
        Inr (Arr1 (map (\<lambda>c. maximum_float (impute_missing_to_zero c) (Finite 0))
                     (raw_label_row (data_rows lines ! i))))"
      by (simp add: rows row)
  next
    show "maximum
           (Arr1 (map (loose_float (Finite 0))
                    [Cell ''-1'' (Some (Finite (- 1))), Cell [] None,
                     Cell ''1'' (Some (Finite 1)), Cell ''0'' (Some (Finite 0))]))
           (Finite 0) =
         Arr1 [Finite 0, Finite 0, Finite 1, Finite 0]"
      by (simp add: maximum_def maximum_float_def loose_float_def)
  qed
qed

text \<open>The law on the \<open>train\<close> manifest of the example disk.\<close>

theorem stored_labels_impute_then_clamp_witness:
  "labels demo_train =
     squeeze (map (\<lambda>r. map (\<lambda>c. maximum_float (impute_missing_to_zero c) (Finite 0))
                          (raw_label_row r))
                [demo_row1, demo_row2]) \<and>
   getitem_int (labels demo_train) 1 =
     Inr (Arr1 (map (\<lambda>c. maximum_float (impute_missing_to_zero c) (Finite 0))
                  (raw_label_row demo_row2)))"
proof -
  have manifest: "demo_disk (index_file (demo_self ''train'')) =
      Some (Csv [demo_header, demo_row1, demo_row2])"
    by (simp add: demo_index_file demo_disk_def)
  have rows: "data_rows [demo_header, demo_row1, demo_row2] = [demo_row1, demo_row2]"
    by (simp add: data_rows_def demo_row1_def demo_row2_def)
  from stored_labels_impute_then_clamp [OF demo_build_train manifest]
  show ?thesis
    unfolding rows by (auto dest: spec [of _ 1])
qed

subsection \<open>Length and order of the index\<close>

text \<open>
  C8 at a manifest with exactly one data row: \<open>np.loadtxt\<close> squeezes the single path
  into a zero-dimensional array, so \<open>__len__\<close> raises \<open>IndexError\<close> where the manifest
  has one data row, and the path at position 0 cannot be read.
\<close>

theorem single_row_manifest_breaks_len:
  "init demo_disk ''/d'' False False = Inr (demo_valid, demo_disk) \<and>
   data_rows [demo_header, demo_row1] = [demo_row1] \<and>
   fnames demo_valid = Arr0 ''CheXpert-v1.0/train/p1.jpg'' \<and>
   len demo_valid = Inl IndexError \<and>
   (\<forall>undefined_cast. getitem undefined_cast demo_disk demo_valid 0 = Inl IndexError)"
  by (simp add: demo_init data_rows_def demo_row1_def str_cell_def num_cell_def)
     (simp add: demo_valid_def len_def getitem_def)

subsection \<open>Failures of index construction\<close>

text \<open>
  Index construction fails with numpy's \<open>OSError\<close> when the CSV of the split is absent and
  with \<open>ValueError\<close> when a data row has fewer than 19 cells.  The two row counts are
  never compared.
\<close>

lemma build_index_failures:
  "(fs (index_file self) = None \<longrightarrow> build_index fs self = Inl OSError) \<and>
   (fs (index_file self) = Some (Csv lines) \<and> (\<exists>r \<in> set (data_rows lines). length r < 19) \<longrightarrow>
      build_index fs self = Inl ValueError)"
proof (intro conjI impI)
  assume "fs (index_file self) = None"
  then show "build_index fs self = Inl OSError"
    by (simp add: build_index_def index_file_def loadtxt_def)
next
  assume a: "fs (index_file self) = Some (Csv lines) \<and> (\<exists>r \<in> set (data_rows lines). length r < 19)"
  then obtain r where r: "r \<in> set (data_rows lines)" "length r < 19" by blast
  have names: "\<exists>a. loadtxt fs (index_file self) 1 0 = Inr a"
    using a by (auto simp: loadtxt_def Let_def)
  have "18 \<in> set [5..<19]" by simp
  with r have "\<exists>r \<in> set (data_rows lines). \<exists>c \<in> set [5..<19]. length r \<le> c"
    by (intro bexI [of _ r] bexI [of _ 18]) auto
  then have "genfromtxt fs (index_file self) 1 [5..<19] (Finite 0) = Inl ValueError"
    using a unfolding genfromtxt_def data_rows_def by (simp del: upt_rec_numeral)
  with names show "build_index fs self = Inl ValueError"
    unfolding build_index_def Let_def label_columns index_file_def by auto
qed

text \<open>
  C6 at a manifest with exactly one data row: index construction succeeds, no error is
  raised, and the two arrays do not have the same row count: the manifest has one data
  row, the single path is squeezed into a zero-dimensional array, which has no first axis,
  and the single label row into a one-dimensional array whose first axis has length 14.
\<close>

theorem single_row_manifest_counts_disagree:
  "demo_disk (index_file (demo_self ''valid'')) = Some (Csv [demo_header, demo_row1]) \<and>
   length (data_rows [demo_header, demo_row1]) = 1 \<and>
   build_index demo_disk (demo_self ''valid'') = Inr demo_valid \<and>
   init demo_disk ''/d'' False False = Inr (demo_valid, demo_disk) \<and>
   shape0 (fnames demo_valid) = Inl IndexError \<and>
   shape0 (labels demo_valid) = Inr 14"
  by (simp add: demo_init demo_build_valid demo_index_file)
     (simp add: demo_valid_def demo_disk_def data_rows_def demo_row1_def str_cell_def num_cell_def)

section \<open>Positions\<close>

text \<open>
  C7 fails at position \<open>-1\<close> of the example index of length 2: numpy counts a negative
  position from the end, and the last sample is returned.
\<close>

theorem negative_position_is_accepted:
  "init demo_disk ''/d'' False True = Inr (demo_train, demo_disk) \<and>
   len demo_train = Inr 2 \<and>
   getitem demo_cast demo_disk demo_train (- 1) =
     Inr (- 1, (1, 224, 224), Arr1 [0, 0, 0, 0, 0, 0, 0, 0, 0, 0, 0, 0, 0, 0])"
  by (simp add: demo_init demo_getitem) (simp add: len_def demo_train_def)

lemma getitem_int_out_of_range:
  assumes "shape0 a = Inr n" and "p < - int n \<or> int n \<le> p"
  shows "getitem_int a p = Inl IndexError"
  using assms by (cases a) (auto simp: py_index_def)

lemma getitem_int_wraps:
  assumes "shape0 a = Inr n" and "- int n \<le> p" and "p < 0"
  shows "getitem_int a p = getitem_int a (p + int n)"
  using assms by (cases a) (auto simp: py_index_def)

text \<open>
  C7, amended: a position \<open>p\<close> with \<open>p \<ge> length\<close> or \<open>p < - length\<close> fails with
  \<open>IndexError\<close>; a position in \<open>[- length, 0)\<close> yields what position \<open>p + length\<close>
  yields, with the index \<open>p\<close> as given in the result.
\<close>

theorem getitem_index_bounds:
  "(len self = Inr n \<and> (p < - int n \<or> int n \<le> p) \<longrightarrow>
      getitem undefined_cast fs self p = Inl IndexError) \<and>
   (len self = Inr n \<and> shape0 (labels self) = Inr n \<and> - int n \<le> p \<and> p < 0 \<longrightarrow>
      getitem undefined_cast fs self p =
        (case getitem undefined_cast fs self (p + int n) of
           Inl e \<Rightarrow> Inl e
         | Inr (i, img, label) \<Rightarrow> Inr (p, img, label)))"
proof (intro conjI impI)
  assume "len self = Inr n \<and> (p < - int n \<or> int n \<le> p)"
  then have "getitem_int (fnames self) p = Inl IndexError"
    by (intro getitem_int_out_of_range) (auto simp: len_def)
  then show "getitem undefined_cast fs self p = Inl IndexError"
    by (simp add: getitem_def)
next
  assume a: "len self = Inr n \<and> shape0 (labels self) = Inr n \<and> - int n \<le> p \<and> p < 0"
  then have names: "getitem_int (fnames self) p = getitem_int (fnames self) (p + int n)"
    by (intro getitem_int_wraps) (auto simp: len_def)
  from a have labs: "getitem_int (labels self) p = getitem_int (labels self) (p + int n)"
    by (intro getitem_int_wraps) auto
  show "getitem undefined_cast fs self p =
        (case getitem undefined_cast fs self (p + int n) of
           Inl e \<Rightarrow> Inl e
         | Inr (i, img, label) \<Rightarrow> Inr (p, img, label))"
    unfolding getitem_def names labs
    by (auto simp: CHEXPERT_LABELS_IDX_eq split: sum.splits ndarray.splits prod.splits)
qed

text \<open>Positions 2, -3 and -1 of the example index of length 2.\<close>

theorem getitem_index_bounds_witness:
  "getitem demo_cast demo_disk demo_train 2 = Inl IndexError \<and>
   getitem demo_cast demo_disk demo_train (- 3) = Inl IndexError \<and>
   getitem demo_cast demo_disk demo_train (- 1) =
     Inr (- 1, (1, 224, 224), Arr1 [0, 0, 0, 0, 0, 0, 0, 0, 0, 0, 0, 0, 0, 0])"
proof -
  have n: "len demo_train = Inr 2" "shape0 (labels demo_train) = Inr 2"
    by (simp_all add: len_def demo_train_def)
  show ?thesis
    using getitem_index_bounds [of demo_train 2 2 demo_cast demo_disk]
          getitem_index_bounds [of demo_train 2 "- 3" demo_cast demo_disk]
          getitem_index_bounds [of demo_train 2 "- 1" demo_cast demo_disk]
    by (simp add: n demo_getitem(2))
qed

section \<open>Labels\<close>

lemma raw_columns_canonical:
  "map raw_column canonical_classes = [8, 1, 2, 3, 4, 5, 6, 7, 8, 9, 10, 11, 12, 13]"
  by (simp add: raw_column_def canonical_classes_def CHEXPERT_LABELS_def)

lemma take_all_Inr:
  assumes "take_all xs idx = Inr ys" and "\<forall>i \<in> set idx. 0 \<le> i"
  shows "(\<forall>i \<in> set idx. nat i < length xs) \<and> ys = map (\<lambda>i. xs ! nat i) idx"
  using assms
proof (induction idx arbitrary: ys)
  case Nil
  then show ?case by simp
next
  case (Cons i idx)
  then show ?case
    by (auto simp: py_index_def split: sum.splits if_splits)
qed

lemma take_all_total:
  assumes "\<forall>i \<in> set idx. 0 \<le> i \<and> i < int (length xs)"
  shows "take_all xs idx = Inr (map (\<lambda>i. xs ! nat i) idx)"
  using assms by (induction idx) (auto simp: py_index_def)

lemma getitem_Inr:
  assumes "getitem undefined_cast fs self p = Inr (i, img, label)"
  obtains fname pil c h w row sel where
    "getitem_int (fnames self) p = Inr (Arr0 fname)"
    "Image_open fs (path_join (root_dir self) fname) = Inr pil"
    "TRANSFORMS pil = Inr (c, h, w)"
    "Pad (pad_args h w) (c, h, w) = Inr img"
    "getitem_int (labels self) p = Inr row"
    "getitem_array row [8, 1, 2, 3, 4, 5, 6, 7, 8, 9, 10, 11, 12, 13] = Inr sel"
    "label = map_ndarray (long undefined_cast) sel" "i = p"
  using assms unfolding getitem_def CHEXPERT_LABELS_IDX_eq
  by (auto split: sum.splits ndarray.splits prod.splits)

lemma selected_row:
  assumes "getitem_int a p = Inr row"
      and "getitem_array row [8, 1, 2, 3, 4, 5, 6, 7, 8, 9, 10, 11, 12, 13] = Inr sel"
  obtains r where "row = Arr1 r" "14 \<le> length r"
    "sel = Arr1 (map (\<lambda>k. r ! k) [8, 1, 2, 3, 4, 5, 6, 7, 8, 9, 10, 11, 12, 13])"
proof -
  from assms obtain r where r: "row = Arr1 r"
    by (cases a) (auto split: sum.splits)
  with assms(2) obtain ys where
    ys: "take_all r [8, 1, 2, 3, 4, 5, 6, 7, 8, 9, 10, 11, 12, 13] = Inr ys" "sel = Arr1 ys"
    by (cases "take_all r [8, 1, 2, 3, 4, 5, 6, 7, 8, 9, 10, 11, 12, 13]") auto
  have "\<forall>i \<in> set [8, 1, 2, 3, 4, 5, 6, 7, 8, 9, 10, 11, 12, 13 :: int]. 0 \<le> i"
    by simp
  from take_all_Inr [OF ys(1) this] have "nat 13 < length r"
    and "ys = map (\<lambda>i. r ! nat i) [8, 1, 2, 3, 4, 5, 6, 7, 8, 9, 10, 11, 12, 13]"
    by simp_all
  with r ys(2) that show thesis by simp
qed

text \<open>
  C4: the label tensor returned by \<open>__getitem__\<close> is the stored label row at the
  position, read at the raw column of each class of the canonical ordering, every entry
  cast to an integer; the class Atelectasis stands at positions 0 and 8 of the ordering.
\<close>

theorem label_is_row_in_canonical_order:
  assumes "getitem undefined_cast fs self p = Inr (i, img, label)"
  shows "\<exists>row. getitem_int (labels self) p = Inr (Arr1 row) \<and> 14 \<le> length row \<and>
           label = Arr1 (map (\<lambda>name. long undefined_cast (row ! raw_column name)) canonical_classes) \<and>
           canonical_classes ! 0 = ''Atelectasis'' \<and> canonical_classes ! 8 = ''Atelectasis''"
proof -
  from assms obtain row sel where
    row: "getitem_int (labels self) p = Inr row" and
    sel: "getitem_array row [8, 1, 2, 3, 4, 5, 6, 7, 8, 9, 10, 11, 12, 13] = Inr sel" and
    label: "label = map_ndarray (long undefined_cast) sel"
    by (rule getitem_Inr)
  from row sel obtain r where r: "row = Arr1 r" "14 \<le> length r"
    "sel = Arr1 (map (\<lambda>k. r ! k) [8, 1, 2, 3, 4, 5, 6, 7, 8, 9, 10, 11, 12, 13])"
    by (rule selected_row)
  have "map (\<lambda>name. long undefined_cast (r ! raw_column name)) canonical_classes =
      map (\<lambda>k. long undefined_cast (r ! k)) (map raw_column canonical_classes)"
    by (simp add: o_def)
  then have "label = Arr1 (map (\<lambda>name. long undefined_cast (r ! raw_column name)) canonical_classes)"
    unfolding raw_columns_canonical by (simp add: label r(3))
  moreover have "canonical_classes ! 0 = ''Atelectasis''" "canonical_classes ! 8 = ''Atelectasis''"
    by (simp_all add: canonical_classes_def)
  ultimately show ?thesis
    using row r(1,2) by blast
qed

text \<open>The label tensor at position 0 of the example index.\<close>

theorem label_is_row_in_canonical_order_witness:
  "\<exists>row. getitem_int (labels demo_train) 0 = Inr (Arr1 row) \<and> 14 \<le> length row \<and>
     Arr1 [1, 1, 0, 0, 0, 0, 2, 0, 1, 0, 0, 0, 0, 1] =
       Arr1 (map (\<lambda>name. long demo_cast (row ! raw_column name)) canonical_classes)"
  using label_is_row_in_canonical_order [OF demo_getitem(1)] by (elim exE conjE) (intro exI conjI)

lemma take_all_update0:
  assumes "\<forall>i \<in> set idx. 0 < i"
  shows "take_all (r[0 := v]) idx = take_all r idx"
  using assms by (induction idx) (auto simp: py_index_def split: sum.splits)

lemma getitem_array_update0:
  "getitem_array (Arr1 (r[0 := v])) [8, 1, 2, 3, 4, 5, 6, 7, 8, 9, 10, 11, 12, 13] =
   getitem_array (Arr1 r) [8, 1, 2, 3, 4, 5, 6, 7, 8, 9, 10, 11, 12, 13]"
proof -
  have "\<forall>i \<in> set [8, 1, 2, 3, 4, 5, 6, 7, 8, 9, 10, 11, 12, 13 :: int]. 0 < i"
    by simp
  from take_all_update0 [OF this, of r v] show ?thesis
    by (simp only: getitem_array.simps)
qed

lemma getitem_int_update0:
  "getitem_int (Arr2 (map (\<lambda>r. r[0 := f r]) rows)) p = Inl e \<longleftrightarrow>
     getitem_int (Arr2 rows) p = Inl e"
  "getitem_int (Arr2 rows) p = Inr (Arr1 r) \<Longrightarrow>
     getitem_int (Arr2 (map (\<lambda>r. r[0 := f r]) rows)) p = Inr (Arr1 (r[0 := f r]))"
  by (auto simp: py_index_def split: if_splits)

lemma label_part_update0:
  "(case getitem_int (Arr2 (map (\<lambda>r. r[0 := f r]) rows)) p of
      Inl e \<Rightarrow> Inl e
    | Inr row \<Rightarrow>
        (case getitem_array row [8, 1, 2, 3, 4, 5, 6, 7, 8, 9, 10, 11, 12, 13] of
           Inl e \<Rightarrow> Inl e
         | Inr sel \<Rightarrow> Inr (g sel))) =
   (case getitem_int (Arr2 rows) p of
      Inl e \<Rightarrow> Inl e
    | Inr row \<Rightarrow>
        (case getitem_array row [8, 1, 2, 3, 4, 5, 6, 7, 8, 9, 10, 11, 12, 13] of
           Inl e \<Rightarrow> Inl e
         | Inr sel \<Rightarrow> Inr (g sel)))"
proof (cases "getitem_int (Arr2 rows) p")
  case (Inl e)
  then have "getitem_int (Arr2 (map (\<lambda>r. r[0 := f r]) rows)) p = Inl e"
    by (simp only: getitem_int_update0(1))
  with Inl show ?thesis
    by (simp only: sum.case)
next
  case (Inr row)
  then obtain r where r: "row = Arr1 r"
    by (cases "py_index (length rows) p") auto
  from getitem_int_update0(2) [of rows p r f] Inr r
  have "getitem_int (Arr2 (map (\<lambda>r. r[0 := f r]) rows)) p = Inr (Arr1 (r[0 := f r]))"
    by simp
  with Inr r show ?thesis
    by (simp only: sum.case getitem_array_update0)
qed

text \<open>
  C10: in every label tensor returned by \<open>__getitem__\<close> the entries 0 and 8 are equal,
  and the raw column 0 (No Finding) has no influence: overwriting column 0 of every
  stored row changes no result of \<open>__getitem__\<close>.
\<close>

theorem atelectasis_twice_no_finding_never:
  "(getitem undefined_cast fs self p = Inr (i, img, label) \<longrightarrow>
      (\<exists>ls. label = Arr1 ls \<and> length ls = 14 \<and> ls ! 0 = ls ! 8)) \<and>
   (labels self = Arr2 rows \<longrightarrow>
      getitem undefined_cast fs (self\<lparr>labels := Arr2 (map (\<lambda>r. r[0 := f r]) rows)\<rparr>) p = getitem undefined_cast fs self p)"
proof (intro conjI impI)
  assume "getitem undefined_cast fs self p = Inr (i, img, label)"
  then obtain row sel where
    row: "getitem_int (labels self) p = Inr row" and
    sel: "getitem_array row [8, 1, 2, 3, 4, 5, 6, 7, 8, 9, 10, 11, 12, 13] = Inr sel" and
    label: "label = map_ndarray (long undefined_cast) sel"
    by (rule getitem_Inr)
  from row sel obtain r where
    "sel = Arr1 (map (\<lambda>k. r ! k) [8, 1, 2, 3, 4, 5, 6, 7, 8, 9, 10, 11, 12, 13])"
    by (rule selected_row)
  with label show "\<exists>ls. label = Arr1 ls \<and> length ls = 14 \<and> ls ! 0 = ls ! 8"
    by simp
next
  assume rows: "labels self = Arr2 rows"
  show "getitem undefined_cast fs (self\<lparr>labels := Arr2 (map (\<lambda>r. r[0 := f r]) rows)\<rparr>) p = getitem undefined_cast fs self p"
    unfolding getitem_def CHEXPERT_LABELS_IDX_eq
    by (simp add: rows label_part_update0 del: getitem_int.simps
        cong: sum.case_cong prod.case_cong ndarray.case_cong)
qed

text \<open>The example index with column 0 overwritten by 7.\<close>

theorem atelectasis_twice_no_finding_never_witness:
  "[1, 1, 0, 0, 0, 0, 2, 0, 1, 0, 0, 0, 0, 1 :: int] ! 0 =
   [1, 1, 0, 0, 0, 0, 2, 0, 1, 0, 0, 0, 0, 1] ! 8 \<and>
   getitem demo_cast demo_disk
     (demo_train\<lparr>labels := Arr2 [map Finite [7, 1, 0, 0, 0, 0, 2, 0, 1, 0, 0, 0, 0, 1],
                                 map Finite [7, 0, 0, 0, 0, 0, 0, 0, 0, 0, 0, 0, 0, 0]]\<rparr>) 0 =
     Inr (0, (1, 224, 224), Arr1 [1, 1, 0, 0, 0, 0, 2, 0, 1, 0, 0, 0, 0, 1])"
proof -
  have rows: "labels demo_train = Arr2 [map Finite [0, 1, 0, 0, 0, 0, 2, 0, 1, 0, 0, 0, 0, 1],
                                       map Finite [1, 0, 0, 0, 0, 0, 0, 0, 0, 0, 0, 0, 0, 0]]"
    by (simp add: demo_train_def)
  from atelectasis_twice_no_finding_never
         [of demo_cast demo_disk demo_train 0 0 "(1, 224, 224)"
             "Arr1 [1, 1, 0, 0, 0, 0, 2, 0, 1, 0, 0, 0, 0, 1]"
             "[map Finite [0, 1, 0, 0, 0, 0, 2, 0, 1, 0, 0, 0, 0, 1],
               map Finite [1, 0, 0, 0, 0, 0, 0, 0, 0, 0, 0, 0, 0, 0]]" "\<lambda>r. Finite 7"]
  show ?thesis
    by (simp add: demo_getitem(1) rows)
qed

section \<open>Samples\<close>

text \<open>
  The transforms leave a tensor that the padding step brings to 224 by 224, and they
  succeed on every image whose longer edge is at most 224 times the shorter one.
\<close>

lemma resize_out:
  assumes "Resize 223 224 (w, h) = Inr (nw, nh)"
  shows "(nw = 223 \<and> nh = 223) \<or> (nw = 224 \<and> 0 < nh \<and> nh \<le> 223) \<or>
         (nh = 224 \<and> 0 < nw \<and> nw \<le> 223)"
proof -
  define short where "short = (if w \<le> h then w else h)"
  define long where "long = (if w \<le> h then h else w)"
  define nl where "nl = (223 * long) div short"
  define ns where "ns = (224 * 223) div nl"
  from assms have pos: "0 < short"
    by (auto simp: Resize_def short_def Let_def split: if_splits)
  have "short \<le> long"
    by (simp add: short_def long_def)
  then have "223 * short div short \<le> 223 * long div short"
    by (intro div_le_mono) simp
  with pos have lo: "223 \<le> nl"
    by (simp add: nl_def)
  have cap: "ns \<le> 222" if "224 < nl"
  proof -
    from that have "225 \<le> nl" by simp
    then have "(224 * 223) div nl \<le> (224 * 223) div 225"
      by (intro div_le_mono2) simp_all
    then show ?thesis by (simp add: ns_def)
  qed
  from assms pos have out:
    "(nw, nh) = (if w \<le> h then (if 224 < nl then (ns, 224) else (223, nl))
                 else (if 224 < nl then (224, ns) else (nl, 223)))"
    and nz: "nw \<noteq> 0" "nh \<noteq> 0"
    by (auto simp: Resize_def short_def long_def nl_def ns_def Let_def split: if_splits)
  show ?thesis
  proof (cases "224 < nl")
    case True
    with cap out nz show ?thesis
      by (auto split: if_splits)
  next
    case False
    with lo have "nl = 223 \<or> nl = 224" by auto
    with False out show ?thesis
      by (auto split: if_splits)
  qed
qed

lemma pad_to_square:
  assumes "TRANSFORMS pil = Inr (c, h, w)"
  shows "Pad (pad_args h w) (c, h, w) = Inr (1, 224, 224)"
proof -
  obtain w0 h0 where pil: "pil = (w0, h0)" by (cases pil)
  from assms obtain nw nh where
    r: "Resize 223 224 (w0, h0) = Inr (nw, nh)" and t: "c = 1" "h = nh" "w = nw"
    by (auto simp: TRANSFORMS_def INPUT_SIZE_def ToTensor_def Normalize_def pil
        split: sum.splits)
  have half: "(g + g mod 2) div 2 = g - g div 2" for g :: int
    by presburger
  from resize_out [OF r] show ?thesis
    unfolding t
    by (elim disjE conjE)
       (auto simp: pad_args_def Pad_def INPUT_SIZE_def Let_def half)
qed

lemma transforms_total:
  assumes "0 < w" and "0 < h" and "w \<le> 224 * h" and "h \<le> 224 * w"
  shows "\<exists>t. TRANSFORMS (w, h) = Inr t"
proof -
  define short where "short = (if w \<le> h then w else h)"
  define long where "long = (if w \<le> h then h else w)"
  define nl where "nl = (223 * long) div short"
  from assms have pos: "0 < short" and ratio: "long \<le> 224 * short"
    by (auto simp: short_def long_def)
  from ratio have "223 * long \<le> (223 * 224) * short" by simp
  then have "223 * long div short \<le> (223 * 224) * short div short"
    by (rule div_le_mono)
  with pos have hi: "nl \<le> 224 * 223"
    by (simp add: nl_def)
  have "short \<le> long"
    by (simp add: short_def long_def)
  then have "223 * short div short \<le> 223 * long div short"
    by (intro div_le_mono) simp
  with pos have lo: "223 \<le> nl"
    by (simp add: nl_def)
  from lo hi have "(224 * 223) div nl \<noteq> 0"
    by (simp add: div_eq_0_iff)
  with lo pos show ?thesis
    by (auto simp: TRANSFORMS_def Resize_def INPUT_SIZE_def ToTensor_def Normalize_def
        short_def long_def nl_def Let_def)
qed

lemma stored_row_binary:
  assumes "\<forall>c \<in> set (raw_label_row r).
             c \<in> {None, Some (Finite (- 1)), Some (Finite 0), Some (Finite 1)}"
      and "x \<in> set (stored_row r)"
  shows "x = Finite 0 \<or> x = Finite 1"
proof -
  from assms(2) obtain c where c: "c \<in> set (raw_label_row r)"
    and x: "x = clamp_negative (impute_missing_to_zero c)"
    unfolding stored_row_def by auto
  from assms(1) c have
    "c = None \<or> c = Some (Finite (- 1)) \<or> c = Some (Finite 0) \<or> c = Some (Finite 1)"
    by auto
  then show ?thesis
    by (auto simp: x clamp_negative_def impute_missing_to_zero_def)
qed

lemma long_binary:
  "x = Finite 0 \<or> x = Finite 1 \<Longrightarrow> long undefined_cast x = 0 \<or> long undefined_cast x = 1"
  by (auto simp: long_def)

lemma select_all_columns:
  assumes "length r = 14"
  shows "getitem_array (Arr1 r) [8, 1, 2, 3, 4, 5, 6, 7, 8, 9, 10, 11, 12, 13] =
           Inr (Arr1 (map (\<lambda>k. r ! k) [8, 1, 2, 3, 4, 5, 6, 7, 8, 9, 10, 11, 12, 13]))"
proof -
  have "\<forall>i \<in> set [8, 1, 2, 3, 4, 5, 6, 7, 8, 9, 10, 11, 12, 13 :: int]. 0 \<le> i \<and> i < int (length r)"
    by (simp add: assms)
  from take_all_total [OF this] show ?thesis by simp
qed

text \<open>
  C5 fails at position 0 of the example index: the raw code \<open>2.0\<close> of the manifest is
  stored as 2 and returned as the label entry 2.
\<close>

theorem label_entry_outside_zero_one:
  "init demo_disk ''/d'' False True = Inr (demo_train, demo_disk) \<and>
   len demo_train = Inr 2 \<and>
   getitem demo_cast demo_disk demo_train 0 =
     Inr (0, (1, 224, 224), Arr1 [1, 1, 0, 0, 0, 0, 2, 0, 1, 0, 0, 0, 0, 1])"
  by (simp add: demo_init demo_getitem(1)) (simp add: len_def demo_train_def)

text \<open>
  C5, amended: for an index built from a manifest and a position \<open>p\<close> in \<open>[0, length)\<close>
  whose image opens and passes the transforms, \<open>__getitem__\<close> returns the index, an image
  tensor of shape \<open>(1, 224, 224)\<close> and a label tensor of length 14; every entry is 0 or 1
  when every label cell of row \<open>p\<close> is missing or converts to one of -1, 0 and 1.
\<close>

theorem getitem_shape_and_label_domain:
  assumes "build_index fs0 self0 = Inr self"
      and "fs0 (index_file self0) = Some (Csv lines)"
      and "len self = Inr n" and "0 \<le> p" and "p < int n"
      and "Image_open fs (path_join (root_dir self) (cell_text (data_rows lines ! nat p ! 0))) =
             Inr pil"
      and "TRANSFORMS pil = Inr t"
  shows "\<exists>label. getitem undefined_cast fs self p = Inr (p, (1, 224, 224), Arr1 label) \<and>
           length label = 14 \<and>
           ((\<forall>c \<in> set (raw_label_row (data_rows lines ! nat p)).
                c \<in> {None, Some (Finite (- 1)), Some (Finite 0), Some (Finite 1)}) \<longrightarrow>
            (\<forall>x \<in> set label. x = 0 \<or> x = 1))"
proof -
  let ?rows = "data_rows lines"
  let ?r = "stored_row (?rows ! nat p)"
  let ?idx = "[8, 1, 2, 3, 4, 5, 6, 7, 8, 9, 10, 11, 12, 13 :: nat]"
  let ?label = "map (\<lambda>k. long undefined_cast (?r ! k)) ?idx"
  from assms(4,5) have pos: "0 < n" and k: "nat p < n" by auto
  note n = built_arrays(1) [OF assms(1-3)]
  note names = built_arrays(2) [OF assms(1-3) pos]
  note labs = built_arrays(3) [OF assms(1-3) pos]
  from k assms(4) have name:
    "getitem_int (fnames self) p = Inr (Arr0 (cell_text (?rows ! nat p ! 0)))"
    by (simp add: names py_index_def n)
  from k assms(4) have row: "getitem_int (labels self) p = Inr (Arr1 ?r)"
    by (simp add: labs py_index_def n)
  obtain c h w where t: "t = (c, h, w)" by (cases t)
  from assms(7) have pad: "Pad (pad_args h w) (c, h, w) = Inr (1, 224, 224)"
    unfolding t by (rule pad_to_square)
  have sel: "getitem_array (Arr1 ?r) [8, 1, 2, 3, 4, 5, 6, 7, 8, 9, 10, 11, 12, 13] =
      Inr (Arr1 (map (\<lambda>k. ?r ! k) ?idx))"
    by (rule select_all_columns) (rule length_stored_row)
  have result: "getitem undefined_cast fs self p = Inr (p, (1, 224, 224), Arr1 ?label)"
    unfolding getitem_def CHEXPERT_LABELS_IDX_eq name
    using assms(6,7) pad row sel by (simp add: t o_def)
  have mem: "?r ! j \<in> set ?r" if "j \<in> set ?idx" for j
    using that by (intro nth_mem) (auto simp: length_stored_row)
  have binary: "\<forall>x \<in> set ?label. x = 0 \<or> x = 1"
    if dom: "\<forall>c \<in> set (raw_label_row (?rows ! nat p)).
               c \<in> {None, Some (Finite (- 1)), Some (Finite 0), Some (Finite 1)}"
  proof
    fix x assume "x \<in> set ?label"
    then obtain j where j: "j \<in> set ?idx" "x = long undefined_cast (?r ! j)" by auto
    from stored_row_binary [OF dom mem [OF j(1)]] show "x = 0 \<or> x = 1"
      unfolding j(2) by (rule long_binary)
  qed
  show ?thesis
    using result binary by (intro exI [of _ ?label]) simp
qed

text \<open>
  Position 1 of the example index, whose label cells are missing or convert to -1, 0 or 1.
\<close>

theorem getitem_shape_and_label_domain_witness:
  "\<exists>label. getitem demo_cast demo_disk demo_train 1 = Inr (1, (1, 224, 224), Arr1 label) \<and>
     length label = 14 \<and> (\<forall>x \<in> set label. x = 0 \<or> x = 1)"
proof -
  have manifest: "demo_disk (index_file (demo_self ''train'')) =
      Some (Csv [demo_header, demo_row1, demo_row2])"
    by (simp add: demo_index_file demo_disk_def)
  have rows: "data_rows [demo_header, demo_row1, demo_row2] = [demo_row1, demo_row2]"
    by (simp add: data_rows_def demo_row1_def demo_row2_def)
  have n: "len demo_train = Inr 2"
    by (simp add: len_def demo_train_def)
  have opened: "Image_open demo_disk
      (path_join (root_dir demo_train)
         (cell_text (data_rows [demo_header, demo_row1, demo_row2] ! nat 1 ! 0))) =
      Inr (390, 320)"
    unfolding rows
    by (simp add: demo_row2_def str_cell_def demo_train_def path_join_def Image_open_def
        demo_disk_def)
  have resized: "TRANSFORMS (390, 320) = Inr (1, 184, 224)"
    by (simp add: TRANSFORMS_def Resize_def INPUT_SIZE_def ToTensor_def Normalize_def Let_def)
  have codes: "\<forall>c \<in> set (raw_label_row (data_rows [demo_header, demo_row1, demo_row2] ! nat 1)).
      c \<in> {None, Some (Finite (- 1)), Some (Finite 0), Some (Finite 1)}"
    unfolding rows
    by (simp add: raw_label_row_def demo_row2_def str_cell_def num_cell_def)
  from getitem_shape_and_label_domain
         [OF demo_build_train manifest n _ _ opened resized, of demo_cast]
  have "\<exists>label. getitem demo_cast demo_disk demo_train 1 = Inr (1, (1, 224, 224), Arr1 label) \<and>
           length label = 14 \<and>
           ((\<forall>c \<in> set (raw_label_row (data_rows [demo_header, demo_row1, demo_row2] ! nat 1)).
                c \<in> {None, Some (Finite (- 1)), Some (Finite 0), Some (Finite 1)}) \<longrightarrow>
            (\<forall>x \<in> set label. x = 0 \<or> x = 1))"
    by simp
  with codes show ?thesis by blast
qed

end
